theory Spec2Isabelle
  imports Main
begin

section \<open>Data model\<close>

text \<open>
  A projector element (\<open>ProjectorElement\<close> / \<open>IdentifiableProjectorElement\<close>): the model
  type string, the optional instance id and the \<open>stable\<close> flag. A missing \<open>stable\<close> key is
  falsy in the source and is \<open>False\<close> here.
\<close>

record element =
  name :: string
  elem_id :: "nat option"
  stable :: bool

type_synonym ProjectorElements = "element list"

text \<open>
  A projector: its id (used in the request path) and the three sequences the service
  reads and writes.
\<close>

record projector =
  proj_id :: nat
  elements :: ProjectorElements
  elements_preview :: ProjectorElements
  elements_history :: "ProjectorElements list"

text \<open>
  What the service is handed as \<open>obj\<close>: a value of
  \<open>Projectable | ProjectorElementBuildDeskriptor | IdentifiableProjectorElement\<close>. An object
  may carry either capability, both, or none. \<open>getSlide\<close> is \<open>Some e\<close> when the object has
  the \<open>getSlide\<close> method, \<open>e\<close> being what \<open>obj.getSlide().getBasicProjectorElement()\<close> yields;
  \<open>getBasicProjectorElement\<close> is \<open>Some e\<close> when the object has that method itself;
  \<open>asElement\<close> is the object read as an element.
\<close>

record projectable_obj =
  getSlide :: "element option"
  getBasicProjectorElement :: "element option"
  asElement :: element

text \<open>
  The body of the request posted to \<open>/rest/core/projector/<id>/project/\<close>. A key that the
  source does not set is \<open>None\<close>; \<open>delete_last_history_element\<close> is either absent
  (\<open>False\<close>) or \<open>true\<close>.
\<close>

record request_data =
  req_elements :: "ProjectorElements option"
  req_preview :: "ProjectorElements option"
  append_to_history :: "ProjectorElements option"
  delete_last_history_element :: bool

text \<open>
  The two ways a call of the service can fail: the \<open>Error\<close> thrown by \<open>projectRequest\<close>,
  and a rejection of \<open>http.post\<close>, which the service does not catch.
\<close>

datatype error = Error string | HttpError string

text \<open>
  The HTTP transport is a parameter: given the projector id of the path and the body, it
  resolves (\<open>None\<close>) or rejects with a message.
\<close>

type_synonym http_post = "nat \<Rightarrow> request_data \<Rightarrow> string option"

text \<open>
  What a call of the service leaves behind: the projector after the call, the requests
  handed to \<open>http.post\<close> in order (each with the projector as it stood at that moment) and
  the error the returned promise is rejected with, if any.
\<close>

record outcome =
  proj :: projector
  posted :: "(projector \<times> request_data) list"
  thrown :: "error option"

section \<open>The projector's own methods\<close>

text \<open>
  Modelled from the spec: the methods \<open>addElement\<close>, \<open>removeAllNonStableElements\<close>,
  \<open>removeElements\<close> and \<open>isElementShown\<close> of the \<open>Projector\<close> model class
  (\<open>app/shared/models/core/projector\<close>), which the service calls. The spec: "append \<open>e\<close> to
  \<open>elements\<close>"; "remove all current non-stable elements from \<open>elements\<close> (call this set R)",
  "as a group, in the order they were shown"; "remove all occurrences matching \<open>e\<close> from
  \<open>elements\<close>"; "test membership (by a structural/identifying equality appropriate to the
  element fields)". The matching relation is not fixed by the spec and is the parameter
  \<open>matches\<close>, shared by removal and membership; \<open>matches e x\<close> reads "the element \<open>x\<close> on the
  projector matches the given element \<open>e\<close>".
\<close>

definition addElement :: "projector \<Rightarrow> element \<Rightarrow> projector" where
  "addElement p e = p\<lparr>elements := elements p @ [e]\<rparr>"

definition removeAllNonStableElements :: "projector \<Rightarrow> ProjectorElements \<times> projector" where
  "removeAllNonStableElements p =
     (filter (\<lambda>e. \<not> stable e) (elements p), p\<lparr>elements := filter stable (elements p)\<rparr>)"

definition removeElements ::
  "(element \<Rightarrow> element \<Rightarrow> bool) \<Rightarrow> projector \<Rightarrow> element \<Rightarrow> ProjectorElements \<times> projector" where
  "removeElements matches p e =
     (filter (matches e) (elements p), p\<lparr>elements := filter (\<lambda>x. \<not> matches e x) (elements p)\<rparr>)"

definition isElementShown :: "(element \<Rightarrow> element \<Rightarrow> bool) \<Rightarrow> projector \<Rightarrow> element \<Rightarrow> bool" where
  "isElementShown matches p e = list_ex (matches e) (elements p)"

text \<open>
  An instance of the matching relation for concrete runs: the identifying fields \<open>name\<close>
  and \<open>id\<close> agree.
\<close>

definition sameIdentity :: "element \<Rightarrow> element \<Rightarrow> bool" where
  "sameIdentity e x = (name x = name e \<and> elem_id x = elem_id e)"

text \<open>
  Modelled from the spec: the type guards \<open>isProjectable\<close> and
  \<open>isProjectorElementBuildDeskriptor\<close> of \<open>app/site/base/projectable\<close>. The spec: the object
  "can be converted to a slide", the object "exposes a build basic element capability".
\<close>

definition isProjectable :: "projectable_obj \<Rightarrow> bool" where
  "isProjectable obj = (getSlide obj \<noteq> None)"

definition isProjectorElementBuildDeskriptor :: "projectable_obj \<Rightarrow> bool" where
  "isProjectorElementBuildDeskriptor obj = (getBasicProjectorElement obj \<noteq> None)"

text \<open>
  \<open>Array.prototype.splice(start, deleteCount)\<close> of the language: a negative \<open>start\<close> counts
  from the end and is clamped at 0, a \<open>start\<close> beyond the end is clamped at the length.
  Returns the deleted items and the array that remains.
\<close>

definition splice :: "int \<Rightarrow> nat \<Rightarrow> 'a list \<Rightarrow> 'a list \<times> 'a list" where
  "splice start deleteCount xs =
     (let len = int (length xs);
          s = nat (if start < 0 then max (len + start) 0 else min start len)
      in (take deleteCount (drop s xs), take s xs @ drop (s + deleteCount) xs))"

section \<open>ProjectorService\<close>

definition getProjectorElement :: "projectable_obj \<Rightarrow> element" where
  "getProjectorElement obj =
     (if isProjectable obj then the (getSlide obj)
      else if isProjectorElementBuildDeskriptor obj then the (getBasicProjectorElement obj)
      else asElement obj)"

text \<open>
  The resolution order as the specification words it (build capability first, slide
  second), for comparison with \<open>getProjectorElement\<close>.
\<close>

definition spec_resolution_order :: "projectable_obj \<Rightarrow> element" where
  "spec_resolution_order obj =
     (if isProjectorElementBuildDeskriptor obj then the (getBasicProjectorElement obj)
      else if isProjectable obj then the (getSlide obj)
      else asElement obj)"

definition isProjectedOn ::
  "(element \<Rightarrow> element \<Rightarrow> bool) \<Rightarrow> projectable_obj \<Rightarrow> projector \<Rightarrow> bool" where
  "isProjectedOn matches obj p = isElementShown matches p (getProjectorElement obj)"

text \<open>The source's test \<open>appendToHistory && appendToHistory.length\<close>.\<close>

definition nonEmpty :: "ProjectorElements option \<Rightarrow> bool" where
  "nonEmpty a = (case a of None \<Rightarrow> False | Some xs \<Rightarrow> length xs \<noteq> 0)"

text \<open>A call that returns without building a request.\<close>

definition noRequest :: "projector \<Rightarrow> outcome" where
  "noRequest p = \<lparr>proj = p, posted = [], thrown = None\<rparr>"

text \<open>
  \<open>projectRequest\<close>: an array argument is always truthy, so \<open>elements\<close> and \<open>preview\<close> are
  copied whenever they are given; \<open>append_to_history\<close> is set only for a non-empty list.
  The \<open>throw\<close> stands before \<open>http.post\<close>.
\<close>

definition projectRequest ::
  "http_post \<Rightarrow> projector \<Rightarrow> ProjectorElements option \<Rightarrow> ProjectorElements option \<Rightarrow>
   ProjectorElements option \<Rightarrow> bool \<Rightarrow> outcome" where
  "projectRequest http p els preview appendToHistory deleteLastHistroyElement =
     (let requestData =
            \<lparr>req_elements = els,
             req_preview = preview,
             append_to_history = (if nonEmpty appendToHistory then appendToHistory else None),
             delete_last_history_element = deleteLastHistroyElement\<rparr>
      in if nonEmpty appendToHistory \<and> deleteLastHistroyElement
         then \<lparr>proj = p, posted = [],
               thrown = Some (Error ''You cannot append to the history and delete the last element at the same time'')\<rparr>
         else \<lparr>proj = p, posted = [(p, requestData)],
               thrown = map_option HttpError (http (proj_id p) requestData)\<rparr>)"

text \<open>
  \<open>projectOn\<close>. In the non-stable branch \<open>element\<close> is an object (its \<open>stable\<close> key has just
  been read), so \<open>if (element)\<close> is taken and \<open>changed\<close> ends up true.
\<close>

definition projectOn :: "http_post \<Rightarrow> projector \<Rightarrow> projectable_obj \<Rightarrow> outcome" where
  "projectOn http p obj =
     (let element = getProjectorElement obj
      in if stable element
         then (let p1 = addElement p element
               in projectRequest http p1 (Some (elements p1)) None None False)
         else (let (removedElements, p1) = removeAllNonStableElements p;
                   changed0 = (length removedElements > 0);
                   p2 = addElement p1 element;
                   changed = True
               in if changed
                  then projectRequest http p2 (Some (elements p2)) None (Some removedElements) False
                  else noRequest p2))"

definition removeFrom ::
  "(element \<Rightarrow> element \<Rightarrow> bool) \<Rightarrow> http_post \<Rightarrow> projector \<Rightarrow> projectable_obj \<Rightarrow> outcome" where
  "removeFrom matches http p obj =
     (let element = getProjectorElement obj;
          (removedElements, p1) = removeElements matches p element
      in if length removedElements > 0
         then (if stable element
               then projectRequest http p1 (Some (elements p1)) None None False
               else projectRequest http p1 (Some (elements p1)) None (Some removedElements) False)
         else noRequest p1)"

text \<open>
  \<open>projectPreviewSlide\<close>. \<open>splice(previewIndex, 1)[0]\<close> is the spliced item; past the guard
  the splice always yields one (lemma \<open>splice_one\<close> below), so the empty case of the
  \<open>case\<close> is never taken.
\<close>

definition projectPreviewSlide :: "http_post \<Rightarrow> projector \<Rightarrow> int \<Rightarrow> outcome" where
  "projectPreviewSlide http p previewIndex =
     (if length (elements_preview p) = 0 \<or> previewIndex \<ge> int (length (elements_preview p))
      then noRequest p
      else (let (removedElements, p1) = removeAllNonStableElements p;
                (spliced, rest) = splice previewIndex 1 (elements_preview p1);
                p2 = p1\<lparr>elements_preview := rest\<rparr>;
                p3 = (case spliced of e # _ \<Rightarrow> addElement p2 e | [] \<Rightarrow> p2)
            in projectRequest http p3 (Some (elements p3)) (Some (elements_preview p3))
                 (Some removedElements) False))"

definition projectNextSlide :: "http_post \<Rightarrow> projector \<Rightarrow> outcome" where
  "projectNextSlide http p = projectPreviewSlide http p 0"

text \<open>
  \<open>projectPreviousSlide\<close>. The last history entry is read, not removed from the local
  array; \<open>forEach(e => preview.unshift(e))\<close> puts each removed element in front of the
  ones unshifted before it.
\<close>

definition projectPreviousSlide :: "http_post \<Rightarrow> projector \<Rightarrow> outcome" where
  "projectPreviousSlide http p =
     (if length (elements_history p) = 0
      then noRequest p
      else (let lastElements = elements_history p ! (length (elements_history p) - 1);
                lastElement = (if length lastElements > 0 then Some (lastElements ! 0) else None);
                (removedElements, p1) = removeAllNonStableElements p;
                p2 = p1\<lparr>elements_preview := fold (\<lambda>e pv. e # pv) removedElements (elements_preview p1)\<rparr>;
                p3 = (case lastElement of Some e \<Rightarrow> addElement p2 e | None \<Rightarrow> p2)
            in projectRequest http p3 (Some (elements p3)) (Some (elements_preview p3)) None True))"

definition savePreview :: "http_post \<Rightarrow> projector \<Rightarrow> outcome" where
  "savePreview http p = projectRequest http p None (Some (elements_preview p)) None False"

definition addElementToPreview :: "http_post \<Rightarrow> projector \<Rightarrow> element \<Rightarrow> outcome" where
  "addElementToPreview http p e =
     (let p1 = p\<lparr>elements_preview := elements_preview p @ [e]\<rparr>
      in projectRequest http p1 None (Some (elements_preview p1)) None False)"

text \<open>
  \<open>projectOnMultiple\<close>. \<open>projectors.includes(projector)\<close> compares objects by identity, so
  an object is known here by its reference: \<open>store\<close> is what \<open>DS.getAll('core/projector')\<close>
  returns, each object with its reference, and \<open>projectors\<close> holds the references of the
  objects passed in. An object that is not the stored one (a copy, a stale one) has another
  reference, whatever its id. The calls are not awaited; the result lists the outcome per
  stored projector.
\<close>

type_synonym objref = nat

definition projectOnMultiple ::
  "(element \<Rightarrow> element \<Rightarrow> bool) \<Rightarrow> http_post \<Rightarrow> (objref \<times> projector) list \<Rightarrow> objref list \<Rightarrow>
   projectable_obj \<Rightarrow> outcome list" where
  "projectOnMultiple matches http store projectors element =
     map (\<lambda>(r, p). if r \<in> set projectors then projectOn http p element
                    else if isElementShown matches p (asElement element)
                         then removeFrom matches http p element
                         else noRequest p) store"

text \<open>
  How a call ends for its caller: an exception thrown to the caller during the call, or
  a returned promise, settled as resolved or rejected. \<open>projectRequest\<close> is declared
  \<open>async\<close>: an error thrown in its body rejects the promise it returns and is not thrown to
  the caller.
\<close>

datatype settled = Resolved | Rejected error

datatype call_end = Throws error | ReturnsPromise settled

definition asyncCall :: "error option \<Rightarrow> call_end" where
  "asyncCall e = ReturnsPromise (case e of None \<Rightarrow> Resolved | Some x \<Rightarrow> Rejected x)"

definition projectRequest_call ::
  "http_post \<Rightarrow> projector \<Rightarrow> ProjectorElements option \<Rightarrow> ProjectorElements option \<Rightarrow>
   ProjectorElements option \<Rightarrow> bool \<Rightarrow> call_end" where
  "projectRequest_call http p els preview appendToHistory deleteLastHistroyElement =
     asyncCall (thrown (projectRequest http p els preview appendToHistory deleteLastHistroyElement))"

text \<open>The invariant of the data model: at most one non-stable element is shown.\<close>

definition atMostOneNonStable :: "projector \<Rightarrow> bool" where
  "atMostOneNonStable p = (length (filter (\<lambda>e. \<not> stable e) (elements p)) \<le> 1)"

text \<open>
  A request was issued on the finished mutation: every posted request saw the projector
  as the call leaves it, and the sequences in its body are that projector's.
\<close>

definition mutationBeforeRequest :: "outcome \<Rightarrow> bool" where
  "mutationBeforeRequest r =
     list_all (\<lambda>(s, d). s = proj r
        \<and> (case req_elements d of None \<Rightarrow> True | Some es \<Rightarrow> es = elements (proj r))
        \<and> (case req_preview d of None \<Rightarrow> True | Some pv \<Rightarrow> pv = elements_preview (proj r)))
      (posted r)"

text \<open>
  The promise of a call is rejected exactly as the transport rejects the posted request.
\<close>

definition failureReported :: "outcome \<Rightarrow> http_post \<Rightarrow> bool" where
  "failureReported r http =
     list_all (\<lambda>(s, d). thrown r = map_option HttpError (http (proj_id s) d)) (posted r)"

text \<open>
  A call changed the history at most one way: the append-and-delete \<open>Error\<close> was not
  thrown and no posted body carries both \<open>append_to_history\<close> and
  \<open>delete_last_history_element\<close>.
\<close>

definition oneHistoryChange :: "outcome \<Rightarrow> bool" where
  "oneHistoryChange r =
     ((case thrown r of Some (Error m) \<Rightarrow> False | Some (HttpError m) \<Rightarrow> True | None \<Rightarrow> True)
      \<and> list_all (\<lambda>(s, d). \<not> (append_to_history d \<noteq> None \<and> delete_last_history_element d))
            (posted r))"

text \<open>Two runs that differ only in what the transport answered did the same locally.\<close>

definition sameLocalEffect :: "outcome \<Rightarrow> outcome \<Rightarrow> bool" where
  "sameLocalEffect r r' = (proj r = proj r' \<and> posted r = posted r')"

section \<open>LoginMaskComponent\<close>

text \<open>
  The login form: the two controls and the form-level \<open>notFound\<close> error that
  \<open>setErrors\<close> sets.
\<close>

record login_form =
  username :: string
  password :: string
  notFound :: bool

record login_mask =
  loginErrorMsg :: string
  loginForm :: login_form
  operatorSubscription :: bool

text \<open>
  The calls the component makes on its collaborators, in order: the overlay service's
  spinner and the authentication service's \<open>login\<close> (the network call).
\<close>

datatype service_call = ShowSpinner bool | HideSpinner | AuthLogin string string

text \<open>
  \<open>authService.login\<close> is a parameter: it may invoke the callback it is given
  (\<open>tookControl\<close>) and it resolves (\<open>None\<close>) or rejects with a message.
\<close>

record login_reply =
  tookControl :: bool
  rejected :: "string option"

type_synonym auth_login = "string \<Rightarrow> string \<Rightarrow> login_reply"

text \<open>
  The framework's validators, by their documented contract: \<open>required\<close> accepts a
  non-empty value, \<open>maxLength n\<close> a value of at most \<open>n\<close> characters.
\<close>

definition Validators_required :: "string \<Rightarrow> bool" where
  "Validators_required v = (v \<noteq> [])"

definition Validators_maxLength :: "nat \<Rightarrow> string \<Rightarrow> bool" where
  "Validators_maxLength n v = (length v \<le> n)"

definition createForm :: "login_mask \<Rightarrow> login_mask" where
  "createForm c = c\<lparr>loginForm := \<lparr>username = [], password = [], notFound = False\<rparr>\<rparr>"

text \<open>Validity of the form that \<open>createForm\<close> builds: both controls pass both validators.\<close>

definition loginForm_valid :: "login_form \<Rightarrow> bool" where
  "loginForm_valid f =
     (Validators_required (username f) \<and> Validators_maxLength 128 (username f)
      \<and> Validators_required (password f) \<and> Validators_maxLength 128 (password f)
      \<and> \<not> notFound f)"

definition clearOperatorSubscription :: "login_mask \<Rightarrow> login_mask" where
  "clearOperatorSubscription c =
     (if operatorSubscription c then c\<lparr>operatorSubscription := False\<rparr> else c)"

text \<open>\<open>formLogin\<close>: the component after the call and the calls it made.\<close>

definition formLogin :: "auth_login \<Rightarrow> login_mask \<Rightarrow> login_mask \<times> service_call list" where
  "formLogin login c =
     (let c1 = c\<lparr>loginErrorMsg := []\<rparr>;
          u = username (loginForm c1);
          pw = password (loginForm c1);
          reply = login u pw;
          c2 = (if tookControl reply then clearOperatorSubscription c1 else c1)
      in case rejected reply of
           None \<Rightarrow> (c2, [ShowSpinner True, AuthLogin u pw])
         | Some e \<Rightarrow>
             (c2\<lparr>loginForm := (loginForm c2)\<lparr>notFound := True\<rparr>, loginErrorMsg := e\<rparr>,
              [ShowSpinner True, AuthLogin u pw, HideSpinner]))"

section \<open>Concrete inputs\<close>

definition elemA :: element where
  "elemA = \<lparr>name = ''A'', elem_id = None, stable = True\<rparr>"

definition elemB :: element where
  "elemB = \<lparr>name = ''B'', elem_id = Some 1, stable = False\<rparr>"

definition elemC :: element where
  "elemC = \<lparr>name = ''C'', elem_id = Some 2, stable = False\<rparr>"

definition elemD :: element where
  "elemD = \<lparr>name = ''D'', elem_id = Some 3, stable = False\<rparr>"

definition httpOk :: http_post where
  "httpOk i d = None"

definition httpDown :: http_post where
  "httpDown i d = Some ''503''"

text \<open>The projector of the specification's scenario.\<close>

definition scenarioProjector :: projector where
  "scenarioProjector =
     \<lparr>proj_id = 1, elements = [elemA], elements_preview = [elemB, elemC], elements_history = []\<rparr>"

text \<open>A projector showing one non-stable element, with a history.\<close>

definition busyProjector :: projector where
  "busyProjector =
     \<lparr>proj_id = 2, elements = [elemA, elemB], elements_preview = [elemC],
      elements_history = [[elemD]]\<rparr>"

text \<open>A projector showing two non-stable elements, with a history.\<close>

definition crowdedProjector :: projector where
  "crowdedProjector =
     \<lparr>proj_id = 3, elements = [elemA, elemB, elemC], elements_preview = [],
      elements_history = [[elemD]]\<rparr>"

text \<open>An object with both capabilities, an object with one, an object with none.\<close>

definition bothObj :: projectable_obj where
  "bothObj = \<lparr>getSlide = Some elemB, getBasicProjectorElement = Some elemC, asElement = elemA\<rparr>"

definition buildObj :: projectable_obj where
  "buildObj = \<lparr>getSlide = None, getBasicProjectorElement = Some elemC, asElement = elemA\<rparr>"

definition plainObj :: "element \<Rightarrow> projectable_obj" where
  "plainObj e = \<lparr>getSlide = None, getBasicProjectorElement = None, asElement = e\<rparr>"

definition longName :: string where
  "longName = replicate 129 CHR ''u''"

definition loginMask129 :: login_mask where
  "loginMask129 =
     \<lparr>loginErrorMsg = [], loginForm = \<lparr>username = longName, password = ''secret'', notFound = False\<rparr>,
      operatorSubscription = True\<rparr>"

definition authAccepts :: auth_login where
  "authAccepts u pw = \<lparr>tookControl = True, rejected = None\<rparr>"

section \<open>Facts about the building blocks\<close>

lemma projectRequest_proj: "proj (projectRequest http p els pv app del) = p"
  by (simp add: projectRequest_def Let_def)

lemma nonstable_of_stable: "filter (\<lambda>e. \<not> stable e) (filter stable xs) = []"
  by (induction xs) auto

lemma length_filter_filter_le:
  "length (filter P (filter Q xs)) \<le> length (filter P xs)"
  by (induction xs) auto

text \<open>Past the guard of \<open>projectPreviewSlide\<close> the splice yields exactly one item.\<close>

lemma splice_start_in_range:
  "0 < n \<Longrightarrow> i < int n \<Longrightarrow> nat (if i < 0 then max (int n + i) 0 else min i (int n)) < n"
  by auto

lemma splice_one:
  "xs \<noteq> [] \<Longrightarrow> i < int (length xs) \<Longrightarrow> \<exists>e. fst (splice i 1 xs) = [e]"
proof -
  assume ne: "xs \<noteq> []" and lt: "i < int (length xs)"
  define s where "s = nat (if i < 0 then max (int (length xs) + i) 0 else min i (int (length xs)))"
  have pos: "0 < length xs" using ne by simp
  have "s < length xs" unfolding s_def using pos lt by (rule splice_start_in_range)
  then have "drop s xs \<noteq> []" by simp
  then obtain e es where "drop s xs = e # es" by (cases "drop s xs") auto
  then have "take 1 (drop s xs) = [e]" by simp
  then show ?thesis by (simp add: splice_def Let_def s_def)
qed

lemma projectOn_elements:
  "elements (proj (projectOn http p obj)) =
     (if stable (getProjectorElement obj) then elements p @ [getProjectorElement obj]
      else filter stable (elements p) @ [getProjectorElement obj])"
  by (simp add: projectOn_def Let_def projectRequest_proj addElement_def removeAllNonStableElements_def)

lemma removeFrom_elements:
  "elements (proj (removeFrom matches http p obj)) =
     filter (\<lambda>x. \<not> matches (getProjectorElement obj) x) (elements p)"
  by (simp add: removeFrom_def Let_def projectRequest_proj removeElements_def noRequest_def)

text \<open>The guard of \<open>projectPreviewSlide\<close>: an empty queue or an index at or past the end.\<close>

lemma projectPreviewSlide_guard:
  "elements_preview p = [] \<or> i \<ge> int (length (elements_preview p)) \<Longrightarrow>
   projectPreviewSlide http p i = noRequest p"
  by (auto simp add: projectPreviewSlide_def)

lemma projectPreviewSlide_elements:
  "\<exists>es. elements (proj (projectPreviewSlide http p i)) = elements p
       \<or> (length es \<le> 1 \<and> elements (proj (projectPreviewSlide http p i)) = filter stable (elements p) @ es)"
  by (auto simp add: projectPreviewSlide_def Let_def projectRequest_proj addElement_def
      removeAllNonStableElements_def noRequest_def split: prod.splits list.splits)

lemma projectPreviousSlide_elements:
  "elements_history p \<noteq> [] \<Longrightarrow>
   elements (proj (projectPreviousSlide http p)) =
     filter stable (elements p) @ (case last (elements_history p) of [] \<Rightarrow> [] | e # _ \<Rightarrow> [e])"
  by (auto simp add: projectPreviousSlide_def Let_def projectRequest_proj addElement_def
      removeAllNonStableElements_def last_conv_nth split: list.splits)

lemma inv_stable_append:
  "length es \<le> 1 \<Longrightarrow> length (filter (\<lambda>e. \<not> stable e) (filter stable xs @ es)) \<le> 1"
proof -
  assume "length es \<le> 1"
  moreover have "length (filter (\<lambda>e. \<not> stable e) es) \<le> length es" by (rule length_filter_le)
  ultimately have "length (filter (\<lambda>e. \<not> stable e) es) \<le> 1" by (rule order_trans [rotated])
  then show ?thesis by (simp add: nonstable_of_stable)
qed

lemmas elem_defs = elemA_def elemB_def elemC_def elemD_def

lemmas op_defs = projectPreviewSlide_def projectPreviousSlide_def projectOn_def removeFrom_def
  projectRequest_def removeAllNonStableElements_def removeElements_def addElement_def
  splice_def nonEmpty_def noRequest_def Let_def getProjectorElement_def isProjectable_def
  isProjectorElementBuildDeskriptor_def

lemma fold_unshift: "fold (\<lambda>e pv. e # pv) xs ys = rev xs @ ys"
  by (induction xs arbitrary: ys) auto

lemma rev_short: "length xs \<le> 1 \<Longrightarrow> rev xs = xs"
  by (cases xs) auto

lemma projectPreviousSlide_run:
  assumes "elements_history p \<noteq> []"
  shows "projectPreviousSlide http p =
     (let p3 = p\<lparr>elements := filter stable (elements p)
                    @ (case last (elements_history p) of [] \<Rightarrow> [] | e # _ \<Rightarrow> [e]),
                 elements_preview := rev (filter (\<lambda>e. \<not> stable e) (elements p)) @ elements_preview p\<rparr>;
          d = \<lparr>req_elements = Some (elements p3), req_preview = Some (elements_preview p3),
               append_to_history = None, delete_last_history_element = True\<rparr>
      in \<lparr>proj = p3, posted = [(p3, d)], thrown = map_option HttpError (http (proj_id p3) d)\<rparr>)"
  using assms
  by (simp add: projectPreviousSlide_def projectRequest_def removeAllNonStableElements_def
      addElement_def nonEmpty_def Let_def fold_unshift last_conv_nth split: list.splits)

lemma projectRequest_oneHistoryChange:
  "\<not> (nonEmpty app \<and> del) \<Longrightarrow> oneHistoryChange (projectRequest http p els pv app del)"
  by (auto simp add: oneHistoryChange_def projectRequest_def Let_def split: option.splits)

lemma noRequest_oneHistoryChange: "oneHistoryChange (noRequest p)"
  by (simp add: oneHistoryChange_def noRequest_def)

lemma projectOn_oneHistoryChange: "oneHistoryChange (projectOn http p obj)"
  by (simp add: projectOn_def Let_def projectRequest_oneHistoryChange split: prod.splits)

lemma removeFrom_oneHistoryChange: "oneHistoryChange (removeFrom matches http p obj)"
  by (simp add: removeFrom_def Let_def projectRequest_oneHistoryChange noRequest_oneHistoryChange
      split: prod.splits)

lemma projectPreviewSlide_oneHistoryChange: "oneHistoryChange (projectPreviewSlide http p i)"
  by (simp add: projectPreviewSlide_def Let_def projectRequest_oneHistoryChange
      noRequest_oneHistoryChange split: prod.splits)

lemma projectPreviousSlide_oneHistoryChange: "oneHistoryChange (projectPreviousSlide http p)"
  by (simp add: projectPreviousSlide_def Let_def projectRequest_oneHistoryChange
      noRequest_oneHistoryChange nonEmpty_def split: prod.splits)

lemma projectRequest_local:
  assumes "\<not> (nonEmpty app \<and> del)"
    and "els = None \<or> els = Some (elements p)"
    and "pv = None \<or> pv = Some (elements_preview p)"
  shows "mutationBeforeRequest (projectRequest http p els pv app del)
     \<and> failureReported (projectRequest http p els pv app del) http
     \<and> sameLocalEffect (projectRequest http p els pv app del) (projectRequest http' p els pv app del)"
  using assms
  by (auto simp add: mutationBeforeRequest_def failureReported_def sameLocalEffect_def
      projectRequest_def Let_def)

lemma noRequest_local:
  "mutationBeforeRequest (noRequest p) \<and> failureReported (noRequest p) http
   \<and> sameLocalEffect (noRequest p) (noRequest p)"
  by (simp add: mutationBeforeRequest_def failureReported_def sameLocalEffect_def noRequest_def)

lemma projectOn_local:
  "mutationBeforeRequest (projectOn http p obj) \<and> failureReported (projectOn http p obj) http
   \<and> sameLocalEffect (projectOn http p obj) (projectOn http' p obj)"
  by (simp add: projectOn_def Let_def projectRequest_local split: prod.splits)

lemma removeFrom_local:
  "mutationBeforeRequest (removeFrom matches http p obj)
   \<and> failureReported (removeFrom matches http p obj) http
   \<and> sameLocalEffect (removeFrom matches http p obj) (removeFrom matches http' p obj)"
  by (simp add: removeFrom_def Let_def projectRequest_local noRequest_local split: prod.splits)

lemma projectPreviewSlide_local:
  "mutationBeforeRequest (projectPreviewSlide http p i)
   \<and> failureReported (projectPreviewSlide http p i) http
   \<and> sameLocalEffect (projectPreviewSlide http p i) (projectPreviewSlide http' p i)"
  by (simp add: projectPreviewSlide_def Let_def projectRequest_local noRequest_local
      split: prod.splits)

lemma projectPreviousSlide_local:
  "mutationBeforeRequest (projectPreviousSlide http p)
   \<and> failureReported (projectPreviousSlide http p) http
   \<and> sameLocalEffect (projectPreviousSlide http p) (projectPreviousSlide http' p)"
  by (simp add: projectPreviousSlide_def Let_def projectRequest_local noRequest_local nonEmpty_def
      split: prod.splits)

lemma addElementToPreview_local:
  "mutationBeforeRequest (addElementToPreview http p e)
   \<and> failureReported (addElementToPreview http p e) http
   \<and> sameLocalEffect (addElementToPreview http p e) (addElementToPreview http' p e)"
  by (simp add: addElementToPreview_def Let_def projectRequest_local nonEmpty_def)

section \<open>The claims\<close>

text \<open>
  Claim C1. If a projector shows at most one non-stable element, it still does after each of
  \<open>projectOn\<close>, \<open>removeFrom\<close>, \<open>projectPreviewSlide\<close>, \<open>projectNextSlide\<close>,
  \<open>projectPreviousSlide\<close>, \<open>addElementToPreview\<close> and \<open>savePreview\<close>, whatever the
  arguments and whatever the transport answers.
\<close>

theorem projector_ops_keep_at_most_one_non_stable:
  assumes "atMostOneNonStable p"
  shows "atMostOneNonStable (proj (projectOn http p obj))
       \<and> atMostOneNonStable (proj (removeFrom matches http p obj))
       \<and> atMostOneNonStable (proj (projectPreviewSlide http p i))
       \<and> atMostOneNonStable (proj (projectNextSlide http p))
       \<and> atMostOneNonStable (proj (projectPreviousSlide http p))
       \<and> atMostOneNonStable (proj (addElementToPreview http p e))
       \<and> atMostOneNonStable (proj (savePreview http p))"
proof -
  have on: "atMostOneNonStable (proj (projectOn http p obj))"
    using assms by (simp add: atMostOneNonStable_def projectOn_elements nonstable_of_stable)
  have rm: "atMostOneNonStable (proj (removeFrom matches http p obj))"
    using assms length_filter_filter_le [of "\<lambda>e. \<not> stable e" _ "elements p"]
    unfolding atMostOneNonStable_def removeFrom_elements
    by (meson le_trans)
  have pv: "atMostOneNonStable (proj (projectPreviewSlide http p j))" for j
  proof -
    obtain es where "elements (proj (projectPreviewSlide http p j)) = elements p
       \<or> (length es \<le> 1 \<and> elements (proj (projectPreviewSlide http p j)) = filter stable (elements p) @ es)"
      using projectPreviewSlide_elements [of http p j] by blast
    then show ?thesis
    proof
      assume "elements (proj (projectPreviewSlide http p j)) = elements p"
      then show ?thesis using assms by (simp add: atMostOneNonStable_def)
    next
      assume h: "length es \<le> 1 \<and> elements (proj (projectPreviewSlide http p j)) = filter stable (elements p) @ es"
      then have "length (filter (\<lambda>e. \<not> stable e) (filter stable (elements p) @ es)) \<le> 1"
        by (intro inv_stable_append) simp
      then show ?thesis using h by (simp add: atMostOneNonStable_def)
    qed
  qed
  have prev: "atMostOneNonStable (proj (projectPreviousSlide http p))"
  proof (cases "elements_history p = []")
    case True
    then show ?thesis using assms by (simp add: projectPreviousSlide_def noRequest_def)
  next
    case False
    then show ?thesis
      unfolding atMostOneNonStable_def projectPreviousSlide_elements [OF False]
      by (intro inv_stable_append) (simp split: list.splits)
  qed
  have add: "atMostOneNonStable (proj (addElementToPreview http p e))"
    using assms by (simp add: addElementToPreview_def Let_def projectRequest_proj atMostOneNonStable_def)
  have sv: "atMostOneNonStable (proj (savePreview http p))"
    using assms by (simp add: savePreview_def projectRequest_proj)
  show ?thesis using on rm pv prev add sv by (simp add: projectNextSlide_def)
qed

theorem projector_ops_keep_at_most_one_non_stable_witness:
  "atMostOneNonStable busyProjector
   \<and> atMostOneNonStable (proj (projectOn httpOk busyProjector (plainObj elemB)))
   \<and> atMostOneNonStable (proj (removeFrom sameIdentity httpOk busyProjector (plainObj elemB)))
   \<and> atMostOneNonStable (proj (projectPreviewSlide httpOk busyProjector 0))
   \<and> atMostOneNonStable (proj (projectNextSlide httpOk busyProjector))
   \<and> atMostOneNonStable (proj (projectPreviousSlide httpOk busyProjector))
   \<and> atMostOneNonStable (proj (addElementToPreview httpOk busyProjector elemD))
   \<and> atMostOneNonStable (proj (savePreview httpOk busyProjector))"
proof -
  have h: "atMostOneNonStable busyProjector"
    by (simp add: atMostOneNonStable_def busyProjector_def elemA_def elemB_def)
  show ?thesis
    using h projector_ops_keep_at_most_one_non_stable
      [OF h, of httpOk "plainObj elemB" sameIdentity 0 elemD]
    by simp
qed

text \<open>
  Claim C2. \<open>projectPreviewSlide\<close> is meant to do nothing when the index is out of bounds.
  The guard tests \<open>previewIndex >= length\<close> only. Run on the scenario projector (one stable
  element shown, two queued) with the index \<open>-1\<close>, which is out of bounds: \<open>splice\<close> counts
  a negative start from the end, the last queued element is projected and a request is
  posted.
\<close>

theorem projectPreviewSlide_negative_index_projects:
  "\<not> (0 \<le> (- 1 :: int) \<and> (- 1 :: int) < int (length (elements_preview scenarioProjector)))
   \<and> elements (proj (projectPreviewSlide httpOk scenarioProjector (- 1))) = [elemA, elemC]
   \<and> elements_preview (proj (projectPreviewSlide httpOk scenarioProjector (- 1))) = [elemB]
   \<and> map snd (posted (projectPreviewSlide httpOk scenarioProjector (- 1))) =
       [\<lparr>req_elements = Some [elemA, elemC], req_preview = Some [elemB],
         append_to_history = None, delete_last_history_element = False\<rparr>]"
  by (simp add: op_defs scenarioProjector_def elem_defs httpOk_def)

text \<open>
  Claim C3 as stated (build capability first) fails on an object that has both
  capabilities: the slide's element is returned, not the built one.
\<close>

theorem getProjectorElement_not_build_first:
  "isProjectorElementBuildDeskriptor bothObj
   \<and> getProjectorElement bothObj \<noteq> the (getBasicProjectorElement bothObj)
   \<and> getProjectorElement bothObj \<noteq> spec_resolution_order bothObj"
  by (simp add: op_defs bothObj_def elem_defs spec_resolution_order_def)

text \<open>
  Claim C3, as the code has it. \<open>getProjectorElement\<close> checks the slide capability first:
  an object that can be converted to a slide resolves to the slide's element; otherwise an
  object with the build capability resolves to what it builds; otherwise the object is the
  element. The result agrees with the build-first order exactly when the object lacks one
  of the two capabilities or both yield the same element.
\<close>

theorem getProjectorElement_prefers_slide:
  "getProjectorElement obj =
     (case getSlide obj of
        Some e \<Rightarrow> e
      | None \<Rightarrow> (case getBasicProjectorElement obj of Some e \<Rightarrow> e | None \<Rightarrow> asElement obj))
   \<and> ((getProjectorElement obj = spec_resolution_order obj)
        = (getSlide obj = None \<or> getBasicProjectorElement obj = None
           \<or> getSlide obj = getBasicProjectorElement obj))"
  by (auto simp add: op_defs spec_resolution_order_def split: option.splits)

theorem getProjectorElement_prefers_slide_witness:
  "getProjectorElement bothObj = elemB \<and> getProjectorElement buildObj = elemC
   \<and> getProjectorElement (plainObj elemA) = elemA
   \<and> getProjectorElement bothObj \<noteq> spec_resolution_order bothObj"
proof -
  have a: "getProjectorElement bothObj = elemB"
    using getProjectorElement_prefers_slide [of bothObj] by (simp add: bothObj_def)
  have b: "getProjectorElement buildObj = elemC"
    using getProjectorElement_prefers_slide [of buildObj] by (simp add: buildObj_def)
  have c: "getProjectorElement (plainObj elemA) = elemA"
    using getProjectorElement_prefers_slide [of "plainObj elemA"] by (simp add: plainObj_def)
  have d: "getProjectorElement bothObj \<noteq> spec_resolution_order bothObj"
    using getProjectorElement_prefers_slide [of bothObj] by (auto simp add: bothObj_def elemB_def elemC_def)
  show ?thesis using a b c d by simp
qed

text \<open>
  Claim C4 as stated fails: the last history entry is not removed from the projector's
  history, and with two non-stable elements shown the preview receives them in reverse
  order.
\<close>

theorem projectPreviousSlide_keeps_history_and_reverses:
  "elements_history busyProjector \<noteq> []
   \<and> elements_history (proj (projectPreviousSlide httpOk busyProjector))
        \<noteq> butlast (elements_history busyProjector)
   \<and> elements_history crowdedProjector \<noteq> []
   \<and> elements_history (proj (projectPreviousSlide httpOk crowdedProjector))
        \<noteq> butlast (elements_history crowdedProjector)
   \<and> elements_preview (proj (projectPreviousSlide httpOk crowdedProjector))
        \<noteq> filter (\<lambda>e. \<not> stable e) (elements crowdedProjector) @ elements_preview crowdedProjector"
  by (simp add: op_defs busyProjector_def crowdedProjector_def elem_defs httpOk_def)

text \<open>
  Claim C4, as the code has it. For a projector with a non-empty history,
  \<open>projectPreviousSlide\<close> leaves the local \<open>elements_history\<close> as it is (the deletion is asked
  of the server by the flag in the request); the non-stable elements shown are removed
  from \<open>elements\<close> and put in front of \<open>elements_preview\<close>, each one before those unshifted
  earlier, which is their own order when the projector shows at most one non-stable
  element; the first element of the last history entry, if that entry has one, is appended
  to \<open>elements\<close>; and one request is posted carrying the new \<open>elements\<close>, the new preview
  and \<open>delete_last_history_element: true\<close>, with no \<open>append_to_history\<close>.
\<close>

theorem projectPreviousSlide_effect:
  assumes "elements_history p \<noteq> []"
  shows "elements_history (proj (projectPreviousSlide http p)) = elements_history p
     \<and> elements_preview (proj (projectPreviousSlide http p)) =
         rev (filter (\<lambda>e. \<not> stable e) (elements p)) @ elements_preview p
     \<and> (atMostOneNonStable p \<longrightarrow>
          elements_preview (proj (projectPreviousSlide http p)) =
            filter (\<lambda>e. \<not> stable e) (elements p) @ elements_preview p)
     \<and> elements (proj (projectPreviousSlide http p)) =
         filter stable (elements p)
           @ (case last (elements_history p) of [] \<Rightarrow> [] | e # _ \<Rightarrow> [e])
     \<and> map snd (posted (projectPreviousSlide http p)) =
         [\<lparr>req_elements = Some (elements (proj (projectPreviousSlide http p))),
           req_preview = Some (elements_preview (proj (projectPreviousSlide http p))),
           append_to_history = None, delete_last_history_element = True\<rparr>]"
  unfolding projectPreviousSlide_run [OF assms]
  by (simp add: Let_def atMostOneNonStable_def rev_short)

theorem projectPreviousSlide_effect_witness:
  "elements_history busyProjector \<noteq> [] \<and> atMostOneNonStable busyProjector
   \<and> elements_history (proj (projectPreviousSlide httpOk busyProjector)) = [[elemD]]
   \<and> elements_preview (proj (projectPreviousSlide httpOk busyProjector)) = [elemB, elemC]
   \<and> elements (proj (projectPreviousSlide httpOk busyProjector)) = [elemA, elemD]
   \<and> map snd (posted (projectPreviousSlide httpOk busyProjector)) =
       [\<lparr>req_elements = Some [elemA, elemD], req_preview = Some [elemB, elemC],
         append_to_history = None, delete_last_history_element = True\<rparr>]"
proof -
  have h: "elements_history busyProjector \<noteq> []" by (simp add: busyProjector_def)
  have i: "atMostOneNonStable busyProjector"
    by (simp add: atMostOneNonStable_def busyProjector_def elemA_def elemB_def)
  show ?thesis
    using h i projectPreviousSlide_effect [OF h, of httpOk]
    by (simp add: busyProjector_def elem_defs httpOk_def)
qed

text \<open>
  Claim C5 as stated fails in the request body: nothing was removed, and an empty list is
  not written to \<open>append_to_history\<close>; the key is absent rather than \<open>[]\<close>.
\<close>

theorem scenario_append_to_history_absent:
  "map (append_to_history \<circ> snd) (posted (projectPreviewSlide httpOk scenarioProjector 1))
     \<noteq> [Some []]"
  by (simp add: op_defs scenarioProjector_def elem_defs httpOk_def)

text \<open>
  Claim C5, as the code has it. On the scenario projector, \<open>projectPreviewSlide\<close> with
  index 1 leaves \<open>elements = [A, C]\<close> and \<open>elements_preview = [B]\<close> and posts one request
  whose body has these elements and this preview and no \<open>append_to_history\<close> key, whatever
  the transport answers.
\<close>

theorem scenario_preview_slide_request:
  "elements (proj (projectPreviewSlide http scenarioProjector 1)) = [elemA, elemC]
   \<and> elements_preview (proj (projectPreviewSlide http scenarioProjector 1)) = [elemB]
   \<and> map snd (posted (projectPreviewSlide http scenarioProjector 1)) =
       [\<lparr>req_elements = Some [elemA, elemC], req_preview = Some [elemB],
         append_to_history = None, delete_last_history_element = False\<rparr>]"
  by (simp add: op_defs scenarioProjector_def elem_defs)

text \<open>
  Claim C6 as stated fails: with a non-empty append list and the delete flag the error is
  not thrown to the caller during the call; the call returns a promise, rejected with the
  error.
\<close>

theorem projectRequest_conflict_not_thrown_synchronously:
  "projectRequest_call httpOk busyProjector None None (Some [elemB]) True
     \<noteq> Throws (Error ''You cannot append to the history and delete the last element at the same time'')
   \<and> projectRequest_call httpOk busyProjector None None (Some [elemB]) True
     = ReturnsPromise
         (Rejected (Error ''You cannot append to the history and delete the last element at the same time''))"
  by (simp add: projectRequest_call_def asyncCall_def projectRequest_def nonEmpty_def Let_def)

text \<open>
  Claim C6, as the code has it. \<open>projectRequest\<close> never throws to its caller. Given a
  non-empty append list together with the delete flag, the promise it returns is rejected
  with the append-and-delete \<open>Error\<close> and nothing is posted; given anything else the promise
  is not rejected with that \<open>Error\<close> and one request is posted.
\<close>

theorem projectRequest_conflict_rejects:
  "(\<forall>e. projectRequest_call http p els pv app del \<noteq> Throws e)
   \<and> (app \<noteq> None \<and> app \<noteq> Some [] \<and> del \<longrightarrow>
      projectRequest_call http p els pv app del =
        ReturnsPromise
          (Rejected (Error ''You cannot append to the history and delete the last element at the same time''))
      \<and> thrown (projectRequest http p els pv app del) =
        Some (Error ''You cannot append to the history and delete the last element at the same time'')
      \<and> posted (projectRequest http p els pv app del) = [])
   \<and> (\<not> (app \<noteq> None \<and> app \<noteq> Some [] \<and> del) \<longrightarrow>
      (\<forall>m. projectRequest_call http p els pv app del \<noteq> ReturnsPromise (Rejected (Error m)))
      \<and> (\<forall>m. thrown (projectRequest http p els pv app del) \<noteq> Some (Error m))
      \<and> length (posted (projectRequest http p els pv app del)) = 1)"
  by (auto simp add: projectRequest_call_def asyncCall_def projectRequest_def nonEmpty_def Let_def
      split: option.splits)

theorem projectRequest_conflict_rejects_witness:
  "projectRequest_call httpOk busyProjector None None (Some [elemB]) True =
     ReturnsPromise
       (Rejected (Error ''You cannot append to the history and delete the last element at the same time''))
   \<and> posted (projectRequest httpOk busyProjector None None (Some [elemB]) True) = []
   \<and> (\<forall>m. projectRequest_call httpDown busyProjector None None (Some []) True
          \<noteq> ReturnsPromise (Rejected (Error m)))
   \<and> length (posted (projectRequest httpDown busyProjector None None (Some []) True)) = 1"
  using projectRequest_conflict_rejects [of httpOk busyProjector None None "Some [elemB]" True]
    projectRequest_conflict_rejects [of httpDown busyProjector None None "Some []" True]
  by simp

text \<open>
  Claim C7 as stated fails: \<open>formLogin\<close> on a form whose username has 129 characters makes
  the login call.
\<close>

theorem formLogin_long_username_reaches_login:
  "length (username (loginForm loginMask129)) = 129
   \<and> AuthLogin (username (loginForm loginMask129)) (password (loginForm loginMask129))
       \<in> set (snd (formLogin authAccepts loginMask129))"
  by (simp add: formLogin_def Let_def loginMask129_def longName_def authAccepts_def)

text \<open>
  Claim C7, as the code has it. With a username of length 129 the form is invalid (the
  \<open>maxLength(128)\<close> validator fails), but \<open>formLogin\<close> does not consult the form's validity:
  it calls \<open>authService.login\<close> with the form's username and password.
\<close>

theorem formLogin_reaches_login_when_invalid:
  assumes "length (username (loginForm c)) = 129"
  shows "\<not> loginForm_valid (loginForm c)
     \<and> AuthLogin (username (loginForm c)) (password (loginForm c)) \<in> set (snd (formLogin login c))"
  using assms
  by (simp add: loginForm_valid_def Validators_maxLength_def formLogin_def Let_def split: option.splits)

theorem formLogin_reaches_login_when_invalid_witness:
  "length (username (loginForm loginMask129)) = 129
   \<and> \<not> loginForm_valid (loginForm loginMask129)
   \<and> AuthLogin longName ''secret'' \<in> set (snd (formLogin authAccepts loginMask129))"
proof -
  have h: "length (username (loginForm loginMask129)) = 129"
    by (simp add: loginMask129_def longName_def)
  show ?thesis using h formLogin_reaches_login_when_invalid [OF h, of authAccepts] by (simp add: loginMask129_def)
qed

text \<open>
  Claim C8. After \<open>removeFrom(projector, obj)\<close>, \<open>isProjectedOn(obj, projector)\<close> is false,
  for every object, every projector, every matching relation shared by removal and
  membership, and whatever the transport answers.
\<close>

theorem removeFrom_then_not_projected:
  "isProjectedOn matches obj (proj (removeFrom matches http p obj)) = False"
  by (simp add: isProjectedOn_def isElementShown_def removeFrom_elements list_ex_iff)

text \<open>
  Claim C9. No public operation that reaches the request builder (\<open>projectOn\<close>,
  \<open>removeFrom\<close>, \<open>projectPreviewSlide\<close>, \<open>projectNextSlide\<close>, \<open>projectPreviousSlide\<close>,
  \<open>savePreview\<close>, \<open>addElementToPreview\<close>, \<open>projectOnMultiple\<close>) throws the append-and-delete
  \<open>Error\<close>, and no request it posts carries both \<open>append_to_history\<close> and
  \<open>delete_last_history_element\<close>.
\<close>

theorem public_ops_never_append_and_delete:
  "oneHistoryChange (projectOn http p obj)
   \<and> oneHistoryChange (removeFrom matches http p obj)
   \<and> oneHistoryChange (projectPreviewSlide http p i)
   \<and> oneHistoryChange (projectNextSlide http p)
   \<and> oneHistoryChange (projectPreviousSlide http p)
   \<and> oneHistoryChange (savePreview http p)
   \<and> oneHistoryChange (addElementToPreview http p e)
   \<and> list_all oneHistoryChange (projectOnMultiple matches http store projectors obj)"
proof -
  have sv: "oneHistoryChange (savePreview http p)"
    by (simp add: savePreview_def projectRequest_oneHistoryChange)
  have ad: "oneHistoryChange (addElementToPreview http p e)"
    by (simp add: addElementToPreview_def Let_def projectRequest_oneHistoryChange)
  have mu: "list_all oneHistoryChange (projectOnMultiple matches http store projectors obj)"
    by (auto simp add: projectOnMultiple_def list_all_iff projectOn_oneHistoryChange
        removeFrom_oneHistoryChange noRequest_oneHistoryChange split: prod.splits)
  show ?thesis
    using sv ad mu
    by (simp add: projectOn_oneHistoryChange removeFrom_oneHistoryChange
        projectPreviewSlide_oneHistoryChange projectPreviousSlide_oneHistoryChange
        projectNextSlide_def)
qed

theorem public_ops_never_append_and_delete_witness:
  "oneHistoryChange (projectOn httpOk busyProjector (plainObj elemC))
   \<and> oneHistoryChange (projectPreviousSlide httpDown busyProjector)
   \<and> posted (projectPreviousSlide httpDown busyProjector) \<noteq> []
   \<and> list_all oneHistoryChange
        (projectOnMultiple sameIdentity httpOk [(10, scenarioProjector), (11, busyProjector)] [10]
           (plainObj elemB))"
  using public_ops_never_append_and_delete [of httpOk busyProjector "plainObj elemC"]
    public_ops_never_append_and_delete [of httpDown busyProjector]
    public_ops_never_append_and_delete [of httpOk _ "plainObj elemB" sameIdentity _ _ "[(10, scenarioProjector), (11, busyProjector)]" "[10]"]
  by (simp add: projectPreviousSlide_run busyProjector_def Let_def)

text \<open>
  Claim C10. For \<open>projectOn\<close>, \<open>removeFrom\<close>, \<open>projectPreviewSlide\<close>, \<open>projectPreviousSlide\<close>
  and \<open>addElementToPreview\<close>: every request is posted on the projector as the call leaves it
  and carries that projector's sequences; the call fails exactly as the transport does; and
  the projector and the requests after the call are the same whatever the transport
  answers, so a failed request leaves the mutation in place.
\<close>

theorem mutation_precedes_request_and_survives_failure:
  "mutationBeforeRequest (projectOn http p obj) \<and> failureReported (projectOn http p obj) http
   \<and> sameLocalEffect (projectOn http p obj) (projectOn http' p obj)
   \<and> mutationBeforeRequest (removeFrom matches http p obj)
   \<and> failureReported (removeFrom matches http p obj) http
   \<and> sameLocalEffect (removeFrom matches http p obj) (removeFrom matches http' p obj)
   \<and> mutationBeforeRequest (projectPreviewSlide http p i)
   \<and> failureReported (projectPreviewSlide http p i) http
   \<and> sameLocalEffect (projectPreviewSlide http p i) (projectPreviewSlide http' p i)
   \<and> mutationBeforeRequest (projectPreviousSlide http p)
   \<and> failureReported (projectPreviousSlide http p) http
   \<and> sameLocalEffect (projectPreviousSlide http p) (projectPreviousSlide http' p)
   \<and> mutationBeforeRequest (addElementToPreview http p e)
   \<and> failureReported (addElementToPreview http p e) http
   \<and> sameLocalEffect (addElementToPreview http p e) (addElementToPreview http' p e)"
  using projectOn_local [of http p obj http'] removeFrom_local [of matches http p obj http']
    projectPreviewSlide_local [of http p i http'] projectPreviousSlide_local [of http p http']
    addElementToPreview_local [of http p e http']
  by simp

theorem mutation_precedes_request_and_survives_failure_witness:
  "sameLocalEffect (projectOn httpDown busyProjector (plainObj elemC))
     (projectOn httpOk busyProjector (plainObj elemC))
   \<and> failureReported (projectOn httpDown busyProjector (plainObj elemC)) httpDown
   \<and> mutationBeforeRequest (projectOn httpDown busyProjector (plainObj elemC))
   \<and> thrown (projectOn httpDown busyProjector (plainObj elemC)) = Some (HttpError ''503'')
   \<and> elements (proj (projectOn httpDown busyProjector (plainObj elemC))) = [elemA, elemC]
   \<and> map (req_elements \<circ> snd) (posted (projectOn httpDown busyProjector (plainObj elemC)))
       = [Some [elemA, elemC]]"
  using mutation_precedes_request_and_survives_failure [of httpDown busyProjector "plainObj elemC" httpOk]
  by (simp add: op_defs busyProjector_def plainObj_def elem_defs httpOk_def httpDown_def)

end
